theory Spec2Isabelle
  imports Main "HOL-Library.Word"
begin

unbundle bit_operations_syntax

section \<open>Python's \<open>str\<close> on integers\<close>

text \<open>
  The f-strings of both modules render integers (\<open>str(index)\<close>, \<open>{monitor_index}\<close>,
  \<open>{self.proc.pid}\<close>) in decimal, a minus sign first when negative.
\<close>

definition digit_char :: "nat \<Rightarrow> char" where
  "digit_char d = ''0123456789'' ! d"

function str_nat :: "nat \<Rightarrow> string" where
  "str_nat n = (if n < 10 then [digit_char n] else str_nat (n div 10) @ [digit_char (n mod 10)])"
  by pat_completeness auto
termination
  by (relation "measure id") auto

declare str_nat.simps [simp del]

definition str_int :: "int \<Rightarrow> string" where
  "str_int i = (if i < 0 then CHR ''-'' # str_nat (nat (- i)) else str_nat (nat i))"

section \<open>fullscreen_black.py: monitor enumeration\<close>

text \<open>
  \<open>RECT\<close> is the ctypes structure of \<open>get_monitors\<close>; its \<open>LONG\<close> fields are read as
  Python integers. The field \<open>top\<close> is written \<open>top_y\<close> (\<open>top\<close> is a constant of HOL).
  A monitor is the dictionary the callback appends: the four edges of the rectangle and the
  keys \<open>width\<close>, \<open>height\<close> and \<open>primary\<close>.
\<close>

record RECT =
  left :: int
  top_y :: int
  right :: int
  bottom :: int

record monitor = RECT +
  width :: int
  height :: int
  primary :: bool

text \<open>
  Of \<open>MONITORINFO\<close> the callback reads \<open>rcMonitor\<close> and \<open>dwFlags\<close> (a \<open>DWORD\<close>);
  \<open>cbSize\<close> is only written and \<open>rcWork\<close> is never read.
\<close>

record MONITORINFO =
  rcMonitor :: RECT
  dwFlags :: "32 word"

text \<open>
  What \<open>user32\<close> answers during one call of \<open>get_monitors\<close>:
  \<^item> \<open>enum_calls\<close>: one entry for each invocation of the callback by
    \<open>EnumDisplayMonitors\<close>, in order; the entry is what \<open>GetMonitorInfoW\<close> delivers for
    that monitor, \<open>None\<close> when it returns 0;
  \<^item> \<open>enum_ret\<close>: the \<open>BOOL\<close> that \<open>EnumDisplayMonitors\<close> returns;
  \<^item> \<open>sm_cxscreen\<close>, \<open>sm_cyscreen\<close>: \<open>GetSystemMetrics(0)\<close> and \<open>GetSystemMetrics(1)\<close>.
\<close>

record user32 =
  enum_calls :: "MONITORINFO option list"
  enum_ret :: int
  sm_cxscreen :: int
  sm_cyscreen :: int

text \<open>
  \<open>_callback\<close>: skips the monitor when \<open>GetMonitorInfoW\<close> fails, appends its dictionary
  otherwise. It returns \<open>True\<close> on both paths, so the enumeration goes on.
\<close>

definition callback :: "monitor list \<Rightarrow> MONITORINFO option \<Rightarrow> monitor list" where
  "callback monitors res =
     (case res of
        None \<Rightarrow> monitors
      | Some mi \<Rightarrow>
          (let r = rcMonitor mi
           in monitors @
              [\<lparr>left = left r, top_y = top_y r, right = right r, bottom = bottom r,
                width = right r - left r, height = bottom r - top_y r,
                primary = (dwFlags mi AND 1 \<noteq> 0)\<rparr>]))"

text \<open>The entry appended when \<open>EnumDisplayMonitors\<close> returns 0 (lines 66-70).\<close>

definition fallback_monitor :: "user32 \<Rightarrow> monitor" where
  "fallback_monitor u =
     (let w = sm_cxscreen u; h = sm_cyscreen u
      in \<lparr>left = 0, top_y = 0, right = w, bottom = h, width = w, height = h, primary = True\<rparr>)"

definition get_monitors :: "user32 \<Rightarrow> monitor list" where
  "get_monitors u =
     (let monitors = foldl callback [] (enum_calls u)
      in if enum_ret u = 0 then monitors @ [fallback_monitor u] else monitors)"

section \<open>fullscreen_black.py: cover_monitor\<close>

text \<open>
  \<open>cover_monitor\<close> either leaves through \<open>sys.exit\<close> or builds the window on the chosen
  monitor and enters the main loop. The outcome keeps the status of the exit, or the monitor
  chosen and the geometry string given to \<open>root.geometry\<close>. The lines printed are those of
  lines 76-84 (the two diagnostics of the selection).
\<close>

datatype outcome = SysExit int | MainLoop monitor string

text \<open>Lines 80-84: the choice of the monitor, with what it prints.\<close>

definition choose_monitor :: "monitor list \<Rightarrow> int \<Rightarrow> string list \<times> monitor" where
  "choose_monitor monitors monitor_index =
     (if monitor_index < 0 \<or> monitor_index \<ge> int (length monitors)
      then ([''Requested monitor '' @ str_int monitor_index @
               '' not found, falling back to primary (0).''], monitors ! 0)
      else ([], monitors ! nat monitor_index))"

definition geometry_of :: "monitor \<Rightarrow> string" where
  "geometry_of m =
     str_int (width m) @ ''x'' @ str_int (height m) @ ''+'' @ str_int (left m) @ ''+'' @
     str_int (top_y m)"

text \<open>The body of \<open>cover_monitor\<close> after line 75, on the list \<open>get_monitors\<close> returned.\<close>

definition cover_monitor_on :: "monitor list \<Rightarrow> int \<Rightarrow> string list \<times> outcome" where
  "cover_monitor_on monitors monitor_index =
     (if monitors = [] then ([''No monitors detected.''], SysExit 1)
      else (case choose_monitor monitors monitor_index of
              (printed, m) \<Rightarrow> (printed, MainLoop m (geometry_of m))))"

definition cover_monitor :: "user32 \<Rightarrow> int \<Rightarrow> string list \<times> outcome" where
  "cover_monitor u monitor_index = cover_monitor_on (get_monitors u) monitor_index"

section \<open>black_controller.py: the controller\<close>

text \<open>
  Exceptions that leave a method of \<open>ControllerApp\<close>. Tk reports an exception of a
  callback and goes on, so a method returns the exception, if any, beside the state it left.
\<close>

datatype exn = AttributeError string | TclError

datatype tkstate = NORMAL | DISABLED

text \<open>
  The calls the controller makes on the operating system and on Tk, in the order made:
  \<open>subprocess.Popen(cmd)\<close>, the Job Object calls of \<open>kernel32\<close>, the methods
  \<open>terminate\<close>, \<open>poll\<close> and \<open>kill\<close> of the \<open>Popen\<close> object (by pid),
  \<open>time.sleep(0.1)\<close>, \<open>root.after(ms, self._poll)\<close>, \<open>root.quit()\<close> and
  \<open>print\<close>.
\<close>

datatype event =
    Popen "string list"
  | CreateJobObjectW
  | SetInformationJobObject int
  | OpenProcess nat
  | AssignProcessToJobObject int int
  | CloseHandle int
  | Terminate nat
  | Poll nat
  | Kill nat
  | Sleep
  | After nat
  | RootQuit
  | Print string

text \<open>
  The fields of \<open>ControllerApp\<close> that its methods read and write: \<open>self.proc\<close> (the
  \<open>Popen\<close> object, known by its pid), \<open>self._polling\<close>, \<open>self._job\<close> (the job
  handle), the status line, the state of the two buttons; with them the callbacks
  registered by \<open>root.after\<close> that have not fired yet, and the calls made so far.
\<close>

record app =
  proc :: "nat option"
  polling :: bool
  job :: "int option"
  status_var :: string
  open_btn :: tkstate
  close_btn :: tkstate
  timers :: nat
  trace :: "event list"

text \<open>\<open>__init__\<close> (lines 171-193).\<close>

definition init_app :: app where
  "init_app =
     \<lparr>proc = None, polling = False, job = None, status_var = ''Status: closed'',
      open_btn = NORMAL, close_btn = DISABLED, timers = 0, trace = []\<rparr>"

definition emit :: "event \<Rightarrow> app \<Rightarrow> app" where
  "emit e s = s\<lparr>trace := trace s @ [e]\<rparr>"

definition running_status :: "nat \<Rightarrow> string" where
  "running_status pid = ''Status: running (pid='' @ str_nat pid @ '')''"

text \<open>
  \<open>self._clear_proc()\<close>, called on lines 322 and 340. Class \<open>ControllerApp\<close> (lines
  150-350) defines \<open>__init__\<close>, \<open>refresh_diagnostics\<close>, \<open>_get_child_command\<close>,
  \<open>open_black\<close>, \<open>close_black\<close>, \<open>_start_polling\<close>, \<open>_poll\<close> and \<open>quit\<close>, has
  no base class and no \<open>__getattr__\<close>, and no file of the repository assigns the
  attribute: the lookup raises \<open>AttributeError\<close> and the state is as it was.
\<close>

definition clear_proc :: "app \<Rightarrow> exn + app" where
  "clear_proc s = Inl (AttributeError ''_clear_proc'')"

text \<open>\<open>self.root.after(500, self._poll)\<close>: one more callback is pending.\<close>

definition root_after :: "app \<Rightarrow> app" where
  "root_after s = (emit (After 500) s)\<lparr>timers := Suc (timers s)\<rparr>"

text \<open>
  \<open>_poll\<close> (lines 337-346). \<open>rc\<close> is what \<open>self.proc.poll()\<close> answers if it is
  called: \<open>None\<close> while the child runs, its return code once it has exited.
\<close>

definition poll :: "int option \<Rightarrow> app \<Rightarrow> exn option \<times> app" where
  "poll rc s =
     (case proc s of
        None \<Rightarrow> (None, root_after s)
      | Some p \<Rightarrow>
          (let s1 = emit (Poll p) s
           in case rc of
                Some r \<Rightarrow>
                  (case clear_proc s1 of
                     Inl e \<Rightarrow> (Some e, s1)
                   | Inr s2 \<Rightarrow> (None, s2\<lparr>polling := False\<rparr>))
              | None \<Rightarrow> (None, root_after (s1\<lparr>status_var := running_status p\<rparr>))))"

text \<open>\<open>_start_polling\<close> (lines 331-335).\<close>

definition start_polling :: "int option \<Rightarrow> app \<Rightarrow> exn option \<times> app" where
  "start_polling rc s = (if polling s then (None, s) else poll rc (s\<lparr>polling := True\<rparr>))"

text \<open>A callback registered by \<open>root.after\<close> fires: Tk calls \<open>_poll\<close>.\<close>

definition tick :: "int option \<Rightarrow> app \<Rightarrow> exn option \<times> app" where
  "tick rc s = (if timers s = 0 then (None, s) else poll rc (s\<lparr>timers := timers s - 1\<rparr>))"

subsection \<open>open_black\<close>

text \<open>A ctypes call raises or returns a C integer (a handle or a \<open>BOOL\<close>; 0 is failure).\<close>

datatype api = Raises | Returns int

text \<open>
  What the environment answers during one call of \<open>open_black\<close>:
  \<^item> \<open>monitor_var\<close>: the value of the spinbox, \<open>None\<close> when its text is no integer
    (\<open>IntVar.get\<close> raises \<open>TclError\<close>);
  \<^item> \<open>frozen\<close>, \<open>executable\<close>, \<open>script\<close>: \<open>is_frozen()\<close>, \<open>sys.executable\<close> and
    the path of \<open>fullscreen_black.py\<close>;
  \<^item> \<open>popen\<close>: \<open>Inl msg\<close> when \<open>subprocess.Popen\<close> raises an exception \<open>e\<close> with
    \<open>str(e) = msg\<close>, \<open>Inr pid\<close> when the child is created;
  \<^item> \<open>have_job\<close>: \<open>_have_job and sys.platform == 'win32'\<close>;
  \<^item> \<open>create_job\<close>, \<open>set_information\<close>, \<open>open_process\<close>, \<open>assign_process\<close>: the
    four Job Object calls (\<open>create_job = Raises\<close> also stands for an exception of the
    set-up before the first call); \<open>close_raises\<close>: \<open>CloseHandle\<close> raises;
  \<^item> \<open>first_poll\<close>: what \<open>self.proc.poll()\<close> answers in the \<open>_poll\<close> that
    \<open>_start_polling\<close> calls.
\<close>

record start_env =
  monitor_var :: "int option"
  frozen :: bool
  executable :: string
  script :: string
  popen :: "string + nat"
  have_job :: bool
  create_job :: api
  set_information :: api
  open_process :: api
  assign_process :: api
  close_raises :: bool
  first_poll :: "int option"

text \<open>\<open>_get_child_command\<close> (lines 210-217).\<close>

definition get_child_command :: "start_env \<Rightarrow> int \<Rightarrow> string list" where
  "get_child_command env index =
     (if frozen env then [executable env, ''--child'', str_int index]
      else [executable env, script env, str_int index])"

text \<open>
  Lines 233-295, the inner \<open>try\<close> of \<open>open_black\<close>: every exception ends in the handler
  that prints and goes on.
\<close>

definition job_except :: "app \<Rightarrow> app" where
  "job_except s = emit (Print ''Failed to set job object'') s"

definition job_close :: "start_env \<Rightarrow> int \<Rightarrow> app \<Rightarrow> app" where
  "job_close env hJob s =
     (let s1 = emit (CloseHandle hJob) s in if close_raises env then job_except s1 else s1)"

definition open_black_job :: "start_env \<Rightarrow> nat \<Rightarrow> app \<Rightarrow> app" where
  "open_black_job env pid s =
     (let s1 = emit CreateJobObjectW s
      in case create_job env of
           Raises \<Rightarrow> job_except s1
         | Returns hJob \<Rightarrow>
             if hJob = 0 then s1
             else
               (let s2 = emit (SetInformationJobObject hJob) s1
                in case set_information env of
                     Raises \<Rightarrow> job_except s2
                   | Returns res \<Rightarrow>
                       if res = 0 then job_close env hJob s2
                       else
                         (let s3 = emit (OpenProcess pid) s2
                          in case open_process env of
                               Raises \<Rightarrow> job_except s3
                             | Returns hProcess \<Rightarrow>
                                 if hProcess = 0 then s3
                                 else
                                   (let s4 = emit (AssignProcessToJobObject hJob hProcess) s3
                                    in case assign_process env of
                                         Raises \<Rightarrow> job_except s4
                                       | Returns ok \<Rightarrow>
                                           if ok \<noteq> 0 then s4\<lparr>job := Some hJob\<rparr>
                                           else job_close env hJob s4))))"

text \<open>\<open>open_black\<close> (lines 219-304).\<close>

definition open_black :: "start_env \<Rightarrow> app \<Rightarrow> exn option \<times> app" where
  "open_black env s =
     (if proc s \<noteq> None then (None, s)
      else
        (case monitor_var env of
           None \<Rightarrow> (Some TclError, s)
         | Some index \<Rightarrow>
             (let s0 = emit (Popen (get_child_command env index)) s
              in case popen env of
                   Inl msg \<Rightarrow>
                     (None, s0\<lparr>status_var := ''Failed to start: '' @ msg, proc := None\<rparr>)
                 | Inr pid \<Rightarrow>
                     (let s1 = s0\<lparr>proc := Some pid\<rparr>;
                          s2 = (if have_job env then open_black_job env pid s1 else s1);
                          s3 = s2\<lparr>status_var := running_status pid,
                                  open_btn := DISABLED, close_btn := NORMAL\<rparr>
                      in start_polling (first_poll env) s3))))"

subsection \<open>close_black and quit\<close>

text \<open>
  What the environment answers during one call of \<open>close_black\<close>: whether
  \<open>self.proc.terminate()\<close> raises, and what \<open>self.proc.poll()\<close> answers after
  \<open>t\<close> sleeps of a tenth of a second. An exception of \<open>kill\<close> is swallowed by the
  handler of line 319 and one of \<open>CloseHandle\<close> by that of line 327; neither changes
  what follows.
\<close>

record stop_env =
  terminate_raises :: bool
  poll_at :: "nat \<Rightarrow> int option"

text \<open>
  The loop of lines 312-316, \<open>n\<close> rounds left after \<open>t\<close> sleeps: it returns the number
  of sleeps done when it ends.
\<close>

fun wait_exit :: "stop_env \<Rightarrow> nat \<Rightarrow> nat \<Rightarrow> nat \<Rightarrow> app \<Rightarrow> nat \<times> app" where
  "wait_exit env p 0 t s = (t, s)"
| "wait_exit env p (Suc n) t s =
     (let s1 = emit (Poll p) s
      in if poll_at env t \<noteq> None then (t, s1) else wait_exit env p n (Suc t) (emit Sleep s1))"

text \<open>The \<open>try\<close> of lines 309-320 with its handler \<open>except Exception: pass\<close>.\<close>

definition stop_child :: "stop_env \<Rightarrow> nat \<Rightarrow> app \<Rightarrow> app" where
  "stop_child env p s =
     (let s1 = emit (Terminate p) s
      in if terminate_raises env then s1
         else
           (case wait_exit env p 10 0 s1 of
              (t, s2) \<Rightarrow>
                (let s3 = emit (Poll p) s2
                 in if poll_at env t = None then emit (Kill p) s3 else s3)))"

text \<open>
  \<open>close_black\<close> (lines 306-329). The \<open>finally\<close> clause runs after the \<open>try\<close>; an
  exception raised in it leaves the method, and lines 324-329 are not reached.
\<close>

definition close_black :: "stop_env \<Rightarrow> app \<Rightarrow> exn option \<times> app" where
  "close_black env s =
     (case proc s of
        None \<Rightarrow> (None, s)
      | Some p \<Rightarrow>
          (let s1 = stop_child env p s
           in case clear_proc s1 of
                Inl e \<Rightarrow> (Some e, s1)
              | Inr s2 \<Rightarrow>
                  (None,
                   (case job s2 of
                      None \<Rightarrow> s2
                    | Some h \<Rightarrow>
                        if h = 0 then s2 else (emit (CloseHandle h) s2)\<lparr>job := None\<rparr>))))"

text \<open>\<open>quit\<close> (lines 348-350).\<close>

definition quit :: "stop_env \<Rightarrow> app \<Rightarrow> exn option \<times> app" where
  "quit env s =
     (case close_black env s of
        (Some e, s1) \<Rightarrow> (Some e, s1)
      | (None, s1) \<Rightarrow> (None, emit RootQuit s1))"

subsection \<open>The states the controller reaches\<close>

text \<open>
  From \<open>__init__\<close>, by the two buttons, the Quit button and the timer, whatever the
  environment answers.
\<close>

inductive reachable :: "app \<Rightarrow> bool" where
  Init: "reachable init_app"
| Open: "reachable s \<Longrightarrow> reachable (snd (open_black env s))"
| Close: "reachable s \<Longrightarrow> reachable (snd (close_black env s))"
| Tick: "reachable s \<Longrightarrow> reachable (snd (tick rc s))"
| Quit: "reachable s \<Longrightarrow> reachable (snd (quit env s))"

subsection \<open>Predicates used by the theorems\<close>

text \<open>
  One of the two handles is given up while the other stays held, between a state and the
  state an operation leaves.
\<close>

definition releases_one :: "app \<Rightarrow> app \<Rightarrow> bool" where
  "releases_one s s' =
     ((proc s \<noteq> None \<and> proc s' = None \<and> job s' \<noteq> None) \<or>
      (job s \<noteq> None \<and> job s' = None \<and> proc s' \<noteq> None))"

text \<open>
  A Job Object call raises or returns 0: creation, configuration, opening the process or
  the assignment.
\<close>

definition job_attach_fails :: "start_env \<Rightarrow> bool" where
  "job_attach_fails env =
     (create_job env = Raises \<or> create_job env = Returns 0 \<or>
      set_information env = Raises \<or> set_information env = Returns 0 \<or>
      open_process env = Raises \<or> open_process env = Returns 0 \<or>
      assign_process env = Raises \<or> assign_process env = Returns 0)"

text \<open>While no child is held, no job handle is held and no poller runs.\<close>

definition idle_inv :: "app \<Rightarrow> bool" where
  "idle_inv s = (proc s = None \<longrightarrow> job s = None \<and> \<not> polling s \<and> timers s = 0)"

subsection \<open>Example inputs\<close>

definition mon_a :: monitor where
  "mon_a =
     \<lparr>left = 0, top_y = 0, right = 1920, bottom = 1080, width = 1920, height = 1080,
      primary = True\<rparr>"

definition mon_b :: monitor where
  "mon_b =
     \<lparr>left = 1920, top_y = 0, right = 3200, bottom = 1024, width = 1280, height = 1024,
      primary = False\<rparr>"

text \<open>A frozen controller on Windows: the child gets pid 4242 and every job call succeeds.\<close>

definition env_ok :: start_env where
  "env_ok =
     \<lparr>monitor_var = Some 1, frozen = True, executable = ''black_controller.exe'',
      script = ''fullscreen_black.py'', popen = Inr 4242, have_job = True,
      create_job = Returns 77, set_information = Returns 1, open_process = Returns 88,
      assign_process = Returns 1, close_raises = False, first_poll = None\<rparr>"

text \<open>The child exits three tenths of a second after \<open>terminate\<close>; the child never exits.\<close>

definition stop_slow :: stop_env where
  "stop_slow = \<lparr>terminate_raises = False, poll_at = (\<lambda>t. if t < 3 then None else Some 1)\<rparr>"

definition stop_never :: stop_env where
  "stop_never = \<lparr>terminate_raises = False, poll_at = (\<lambda>t. None)\<rparr>"

section \<open>Monitor enumeration and selection\<close>







text \<open>
  C5: on a non-empty list of monitors, an index \<open>i\<close> with \<open>0 \<le> i < N\<close> selects
  \<open>monitors[i]\<close> and prints nothing; every other index selects \<open>monitors[0]\<close> and prints
  the notice that names the index. \<open>cover_monitor\<close> goes on to the main loop with the
  monitor selected.
\<close>

theorem cover_monitor_resolution:
  "monitors \<noteq> [] \<Longrightarrow>
     (0 \<le> i \<and> i < int (length monitors) \<longrightarrow>
        choose_monitor monitors i = ([], monitors ! nat i) \<and>
        cover_monitor_on monitors i
          = ([], MainLoop (monitors ! nat i) (geometry_of (monitors ! nat i))))
     \<and> (\<not> (0 \<le> i \<and> i < int (length monitors)) \<longrightarrow>
        choose_monitor monitors i
          = ([''Requested monitor '' @ str_int i @ '' not found, falling back to primary (0).''],
             monitors ! 0) \<and>
        cover_monitor_on monitors i
          = ([''Requested monitor '' @ str_int i @ '' not found, falling back to primary (0).''],
             MainLoop (monitors ! 0) (geometry_of (monitors ! 0))))"
  by (auto simp: choose_monitor_def cover_monitor_on_def)

theorem cover_monitor_resolution_witness:
  "[mon_a, mon_b] \<noteq> []
   \<and> choose_monitor [mon_a, mon_b] 1 = ([], mon_b)
   \<and> choose_monitor [mon_a, mon_b] 5
       = ([''Requested monitor 5 not found, falling back to primary (0).''], mon_a)
   \<and> choose_monitor [mon_a, mon_b] (- 1)
       = ([''Requested monitor -1 not found, falling back to primary (0).''], mon_a)"
  using cover_monitor_resolution [of "[mon_a, mon_b]" 1]
    cover_monitor_resolution [of "[mon_a, mon_b]" 5]
    cover_monitor_resolution [of "[mon_a, mon_b]" "- 1"]
  by (simp add: str_int_def str_nat.simps digit_char_def)

text \<open>
  C10: when \<open>get_monitors\<close> returns the empty list, \<open>cover_monitor\<close> prints
  \<open>No monitors detected.\<close> and leaves through \<open>sys.exit(1)\<close>, whatever the index: no
  monitor is selected and the main loop is not entered.
\<close>

theorem cover_monitor_no_monitors:
  "get_monitors u = [] \<Longrightarrow>
   cover_monitor u monitor_index = ([''No monitors detected.''], SysExit 1)"
  by (simp add: cover_monitor_def cover_monitor_on_def)

theorem cover_monitor_no_monitors_witness:
  "get_monitors \<lparr>enum_calls = [None, None], enum_ret = 1, sm_cxscreen = 0, sm_cyscreen = 0\<rparr> = []
   \<and> cover_monitor \<lparr>enum_calls = [None, None], enum_ret = 1, sm_cxscreen = 0, sm_cyscreen = 0\<rparr> 1
       = ([''No monitors detected.''], SysExit 1)"
proof -
  have h: "get_monitors
      \<lparr>enum_calls = [None, None], enum_ret = 1, sm_cxscreen = 0, sm_cyscreen = 0\<rparr> = []"
    by (simp add: get_monitors_def callback_def)
  show ?thesis using h cover_monitor_no_monitors [OF h, of 1] by simp
qed

section \<open>The controller: what the fields keep\<close>

text \<open>
  Which fields each method leaves as they were. \<open>_clear_proc\<close> raises before
  \<open>_poll\<close> and \<open>close_black\<close> change a field, so both keep \<open>proc\<close> and \<open>job\<close>.
\<close>

lemma emit_fields [simp]:
  "proc (emit e s) = proc s" "job (emit e s) = job s" "polling (emit e s) = polling s"
  "timers (emit e s) = timers s" "status_var (emit e s) = status_var s"
  "open_btn (emit e s) = open_btn s" "close_btn (emit e s) = close_btn s"
  "trace (emit e s) = trace s @ [e]"
  by (simp_all add: emit_def)

lemma root_after_fields [simp]:
  "proc (root_after s) = proc s" "job (root_after s) = job s"
  "polling (root_after s) = polling s" "timers (root_after s) = Suc (timers s)"
  "status_var (root_after s) = status_var s" "open_btn (root_after s) = open_btn s"
  "close_btn (root_after s) = close_btn s" "trace (root_after s) = trace s @ [After 500]"
  by (simp_all add: root_after_def)

lemma poll_keeps:
  "proc (snd (poll rc s)) = proc s" "job (snd (poll rc s)) = job s"
  "open_btn (snd (poll rc s)) = open_btn s" "close_btn (snd (poll rc s)) = close_btn s"
  by (simp_all add: poll_def clear_proc_def Let_def split: option.splits)

lemma poll_exited:
  "proc s = Some p \<Longrightarrow>
   poll (Some r) s = (Some (AttributeError ''_clear_proc''), emit (Poll p) s)"
  by (simp add: poll_def clear_proc_def Let_def)

lemma poll_running:
  "proc s = Some p \<Longrightarrow>
   poll None s = (None, root_after ((emit (Poll p) s)\<lparr>status_var := running_status p\<rparr>))"
  by (simp add: poll_def Let_def)

lemma tick_keeps:
  "proc (snd (tick rc s)) = proc s" "job (snd (tick rc s)) = job s"
  by (simp_all add: tick_def poll_keeps)

lemma job_except_fields [simp]:
  "proc (job_except s) = proc s" "job (job_except s) = job s"
  "polling (job_except s) = polling s" "timers (job_except s) = timers s"
  by (simp_all add: job_except_def)

lemma job_close_fields [simp]:
  "proc (job_close env h s) = proc s" "job (job_close env h s) = job s"
  "polling (job_close env h s) = polling s" "timers (job_close env h s) = timers s"
  by (simp_all add: job_close_def Let_def)

lemma open_black_job_keeps [simp]:
  "proc (open_black_job env pid s) = proc s"
  "polling (open_black_job env pid s) = polling s"
  "timers (open_black_job env pid s) = timers s"
  by (simp_all add: open_black_job_def Let_def split: api.splits)

lemma open_black_job_fails:
  "job_attach_fails env \<Longrightarrow> job (open_black_job env pid s) = job s"
  by (auto simp: open_black_job_def job_attach_fails_def Let_def split: api.splits)

lemma wait_exit_keeps:
  "proc (snd (wait_exit env p n t s)) = proc s \<and> job (snd (wait_exit env p n t s)) = job s \<and>
   polling (snd (wait_exit env p n t s)) = polling s \<and>
   timers (snd (wait_exit env p n t s)) = timers s"
  by (induction n arbitrary: t s) (simp_all add: Let_def)

lemma stop_child_keeps [simp]:
  "proc (stop_child env p s) = proc s" "job (stop_child env p s) = job s"
  "polling (stop_child env p s) = polling s" "timers (stop_child env p s) = timers s"
  using wait_exit_keeps [of env p 10 0 "emit (Terminate p) s"]
  by (auto simp: stop_child_def Let_def split: prod.splits)

lemma close_black_held:
  "proc s = Some p \<Longrightarrow>
   close_black env s = (Some (AttributeError ''_clear_proc''), stop_child env p s)"
  by (simp add: close_black_def clear_proc_def Let_def)

lemma close_black_keeps:
  "proc (snd (close_black env s)) = proc s" "job (snd (close_black env s)) = job s"
  "polling (snd (close_black env s)) = polling s" "timers (snd (close_black env s)) = timers s"
  by (cases "proc s", simp_all add: close_black_def clear_proc_def Let_def)+

lemma quit_keeps:
  "proc (snd (quit env s)) = proc s" "job (snd (quit env s)) = job s"
  "polling (snd (quit env s)) = polling s" "timers (snd (quit env s)) = timers s"
  using close_black_keeps [of env s]
  by (auto simp: quit_def split: prod.splits option.splits)

lemma open_black_proc_mono: "proc s \<noteq> None \<Longrightarrow> snd (open_black env s) = s"
  by (simp add: open_black_def)

lemma open_black_inv: "idle_inv s \<Longrightarrow> idle_inv (snd (open_black env s))"
  by (auto simp: idle_inv_def open_black_def start_polling_def poll_keeps Let_def
      split: option.splits sum.splits)

lemma reachable_inv: "reachable s \<Longrightarrow> idle_inv s"
proof (induction rule: reachable.induct)
  case Init
  show ?case by (simp add: idle_inv_def init_app_def)
next
  case (Open s env)
  then show ?case by (simp add: open_black_inv)
next
  case (Close s env)
  then show ?case by (simp add: idle_inv_def close_black_keeps)
next
  case (Tick s rc)
  then show ?case by (auto simp: idle_inv_def tick_def poll_keeps)
next
  case (Quit s env)
  then show ?case by (simp add: idle_inv_def quit_keeps)
qed

lemma reachable_idle:
  "reachable s \<Longrightarrow> proc s = None \<Longrightarrow> job s = None \<and> \<not> polling s \<and> timers s = 0"
  using reachable_inv by (simp add: idle_inv_def)


lemma wait_exit_bound:
  "wait_exit env p n t s = (t', s') \<Longrightarrow>
   t \<le> t' \<and> t' \<le> t + n \<and> (\<forall>k. t \<le> k \<and> k < t' \<longrightarrow> poll_at env k = None) \<and>
   (t' < t + n \<longrightarrow> poll_at env t' \<noteq> None)"
proof (induction n arbitrary: t s)
  case 0
  then show ?case by auto
next
  case (Suc n)
  show ?case
  proof (cases "poll_at env t = None")
    case False
    with Suc.prems show ?thesis by (auto simp: Let_def)
  next
    case True
    with Suc.prems have "wait_exit env p n (Suc t) (emit Sleep (emit (Poll p) s)) = (t', s')"
      by (simp add: Let_def)
    from Suc.IH [OF this]
    have ih: "Suc t \<le> t'" "t' \<le> Suc t + n"
      "\<forall>k. Suc t \<le> k \<and> k < t' \<longrightarrow> poll_at env k = None"
      "t' < Suc t + n \<longrightarrow> poll_at env t' \<noteq> None"
      by simp_all
    have "poll_at env k = None" if k: "t \<le> k \<and> k < t'" for k
    proof (cases "k = t")
      case True
      with \<open>poll_at env t = None\<close> show ?thesis by simp
    next
      case False
      with k have "Suc t \<le> k \<and> k < t'" by simp
      with ih(3) show ?thesis by blast
    qed
    with ih show ?thesis by simp
  qed
qed

lemma wait_exit_trace:
  "\<exists>evs. trace (snd (wait_exit env p n t s)) = trace s @ evs \<and> set evs \<subseteq> {Poll p, Sleep} \<and>
     length (filter (\<lambda>e. e = Sleep) evs) = fst (wait_exit env p n t s) - t"
proof (induction n arbitrary: t s)
  case 0
  then show ?case by simp
next
  case (Suc n)
  show ?case
  proof (cases "poll_at env t = None")
    case False
    then show ?thesis by (auto simp: Let_def)
  next
    case True
    obtain evs where e: "trace (snd (wait_exit env p n (Suc t) (emit Sleep (emit (Poll p) s))))
        = trace (emit Sleep (emit (Poll p) s)) @ evs" "set evs \<subseteq> {Poll p, Sleep}"
      "length (filter (\<lambda>e. e = Sleep) evs)
        = fst (wait_exit env p n (Suc t) (emit Sleep (emit (Poll p) s))) - Suc t"
      using Suc.IH by blast
    obtain t' s' where w: "wait_exit env p n (Suc t) (emit Sleep (emit (Poll p) s)) = (t', s')"
      by (cases "wait_exit env p n (Suc t) (emit Sleep (emit (Poll p) s))")
    from wait_exit_bound [OF w] have "Suc t \<le> t'" by simp
    with e w True show ?thesis
      by (intro exI [of _ "Poll p # Sleep # evs"]) (auto simp: Let_def)
  qed
qed

text \<open>
  The controller started once with \<open>env_ok\<close>: the state used by the examples below.
\<close>

lemma open_env_ok:
  "proc (snd (open_black env_ok init_app)) = Some 4242"
  "job (snd (open_black env_ok init_app)) = Some 77"
  "polling (snd (open_black env_ok init_app))"
  "timers (snd (open_black env_ok init_app)) = 1"
  "fst (open_black env_ok init_app) = None"
  by (simp_all add: open_black_def env_ok_def init_app_def open_black_job_def
      start_polling_def poll_def Let_def)

text \<open>
  What \<open>close_black\<close> asks of the child before its \<open>finally\<close> clause: on a child
  that exits after three sleeps it polls four times and kills nothing; on a child that never
  exits it sleeps ten times, polls once more and kills.
\<close>

lemma stop_slow_trace:
  "trace (stop_child stop_slow 4242 init_app)
     = [Terminate 4242, Poll 4242, Sleep, Poll 4242, Sleep, Poll 4242, Sleep, Poll 4242,
        Poll 4242]"
  by (simp add: stop_child_def stop_slow_def init_app_def eval_nat_numeral Let_def)

lemma stop_never_trace:
  "trace (stop_child stop_never 4242 init_app)
     = [Terminate 4242, Poll 4242, Sleep, Poll 4242, Sleep, Poll 4242, Sleep, Poll 4242, Sleep,
        Poll 4242, Sleep, Poll 4242, Sleep, Poll 4242, Sleep, Poll 4242, Sleep, Poll 4242,
        Sleep, Poll 4242, Sleep, Poll 4242, Kill 4242]"
  by (simp add: stop_child_def stop_never_def init_app_def eval_nat_numeral Let_def)



section \<open>The controller: the claims\<close>

text \<open>
  C2: in every state the controller reaches, the job handle is held only while the child
  handle is held (they are set by the same call of \<open>open_black\<close>), and no method
  (\<open>open_black\<close>, \<open>close_black\<close>, a timer tick of \<open>_poll\<close>, \<open>quit\<close>) gives up one of
  the two while the other stays held.
\<close>

theorem handles_paired:
  "reachable s \<Longrightarrow>
     (job s \<noteq> None \<longrightarrow> proc s \<noteq> None) \<and>
     \<not> releases_one s (snd (open_black oenv s)) \<and>
     \<not> releases_one s (snd (close_black env s)) \<and>
     \<not> releases_one s (snd (tick rc s)) \<and>
     \<not> releases_one s (snd (quit env s))"
proof -
  assume r: "reachable s"
  have i: "job s \<noteq> None \<longrightarrow> proc s \<noteq> None"
  proof (cases "proc s")
    case None
    with reachable_idle [OF r] show ?thesis by simp
  next
    case (Some p)
    then show ?thesis by simp
  qed
  have o: "\<not> releases_one s (snd (open_black oenv s))"
  proof (cases "proc s")
    case None
    with reachable_idle [OF r] show ?thesis by (simp add: releases_one_def)
  next
    case (Some p)
    then show ?thesis by (auto simp: open_black_proc_mono releases_one_def)
  qed
  show ?thesis using i o
    by (auto simp: releases_one_def close_black_keeps tick_keeps quit_keeps)
qed

theorem handles_paired_witness:
  "reachable (snd (open_black env_ok init_app)) \<and>
   proc (snd (open_black env_ok init_app)) = Some 4242 \<and>
   job (snd (open_black env_ok init_app)) = Some 77 \<and>
   \<not> releases_one (snd (open_black env_ok init_app))
       (snd (close_black stop_never (snd (open_black env_ok init_app)))) \<and>
   \<not> releases_one (snd (open_black env_ok init_app))
       (snd (tick (Some 0) (snd (open_black env_ok init_app))))"
  using handles_paired [OF reachable.Open [OF reachable.Init], of env_ok env_ok stop_never "Some 0"]
    reachable.Open [OF reachable.Init, of env_ok]
  by (simp add: open_env_ok)

text \<open>
  C3 fails on the code: when the timer fires and \<open>self.proc.poll()\<close> reports that the
  child has exited, \<open>_poll\<close> calls the undefined \<open>_clear_proc\<close>. The
  \<open>AttributeError\<close> leaves \<open>_poll\<close> with \<open>proc\<close>, \<open>job\<close> and \<open>polling\<close> as they
  were; nothing is released and no further tick is registered.
\<close>

theorem natural_exit_not_released:
  "proc s = Some p \<Longrightarrow> 0 < timers s \<Longrightarrow>
   tick (Some r) s
     = (Some (AttributeError ''_clear_proc''),
        s\<lparr>timers := timers s - 1, trace := trace s @ [Poll p]\<rparr>)"
  by (simp add: tick_def poll_def clear_proc_def emit_def Let_def)

theorem natural_exit_not_released_witness:
  "fst (tick (Some 0) (snd (open_black env_ok init_app))) = Some (AttributeError ''_clear_proc'') \<and>
   proc (snd (tick (Some 0) (snd (open_black env_ok init_app)))) = Some 4242 \<and>
   job (snd (tick (Some 0) (snd (open_black env_ok init_app)))) = Some 77 \<and>
   polling (snd (tick (Some 0) (snd (open_black env_ok init_app)))) \<and>
   timers (snd (tick (Some 0) (snd (open_black env_ok init_app)))) = 0"
  using natural_exit_not_released [of "snd (open_black env_ok init_app)" 4242 0]
  by (simp add: open_env_ok)

text \<open>
  C4 fails on the code: from a state that holds a child, \<open>close_black\<close> requests
  termination, waits at most ten sleeps of a tenth of a second and kills a child that is
  still alive, but its \<open>finally\<close> clause calls the undefined \<open>_clear_proc\<close>: the
  \<open>AttributeError\<close> leaves the method before lines 324-329, so \<open>proc\<close> and \<open>job\<close>
  stay held and \<open>CloseHandle\<close> is not called.
\<close>

theorem stop_not_released:
  "proc s = Some p \<Longrightarrow>
   fst (close_black env s) = Some (AttributeError ''_clear_proc'') \<and>
   proc (snd (close_black env s)) = Some p \<and>
   job (snd (close_black env s)) = job s \<and>
   (\<exists>evs. trace (snd (close_black env s)) = trace s @ Terminate p # evs \<and>
      set evs \<subseteq> {Poll p, Sleep, Kill p} \<and> length (filter (\<lambda>e. e = Sleep) evs) \<le> 10)"
proof -
  assume p: "proc s = Some p"
  have c: "close_black env s = (Some (AttributeError ''_clear_proc''), stop_child env p s)"
    using p by (rule close_black_held)
  let ?s1 = "emit (Terminate p) s"
  obtain t' s' where w: "wait_exit env p 10 0 ?s1 = (t', s')"
    by (cases "wait_exit env p 10 0 ?s1")
  obtain evs where e: "trace s' = trace ?s1 @ evs" "set evs \<subseteq> {Poll p, Sleep}"
    "length (filter (\<lambda>e. e = Sleep) evs) = t'"
    using wait_exit_trace [of env p 10 0 ?s1] w by auto
  have b: "t' \<le> 10" using wait_exit_bound [OF w] by simp
  have "\<exists>evs. trace (stop_child env p s) = trace s @ Terminate p # evs \<and>
      set evs \<subseteq> {Poll p, Sleep, Kill p} \<and> length (filter (\<lambda>e. e = Sleep) evs) \<le> 10"
  proof (cases "terminate_raises env")
    case True
    then show ?thesis by (simp add: stop_child_def Let_def)
  next
    case False
    show ?thesis
    proof (cases "poll_at env t' = None")
      case True
      with False w e b show ?thesis
        by (intro exI [of _ "evs @ [Poll p, Kill p]"]) (auto simp: stop_child_def Let_def)
    next
      case n: False
      with False w e b show ?thesis
        by (intro exI [of _ "evs @ [Poll p]"]) (auto simp: stop_child_def Let_def)
    qed
  qed
  with c p show ?thesis by simp
qed

theorem stop_not_released_witness:
  "fst (close_black stop_never (snd (open_black env_ok init_app)))
     = Some (AttributeError ''_clear_proc'') \<and>
   proc (snd (close_black stop_never (snd (open_black env_ok init_app)))) = Some 4242 \<and>
   job (snd (close_black stop_never (snd (open_black env_ok init_app)))) = Some 77"
  using stop_not_released [of "snd (open_black env_ok init_app)" 4242 stop_never]
  by (simp add: open_env_ok)

text \<open>
  C6: \<open>open_black\<close> while a child is held returns at once, with the state as it was
  (no \<open>Popen\<close> call is added to the trace); \<open>close_black\<close> while no child is held
  returns at once, with the state as it was and no exception.
\<close>

theorem guards_are_noops:
  "(proc s \<noteq> None \<longrightarrow> open_black env s = (None, s)) \<and>
   (proc s = None \<longrightarrow> close_black senv s = (None, s))"
  by (simp add: open_black_def close_black_def)

theorem guards_are_noops_witness:
  "open_black env_ok (snd (open_black env_ok init_app)) = (None, snd (open_black env_ok init_app))
   \<and> close_black stop_never init_app = (None, init_app)"
proof -
  have a: "proc (snd (open_black env_ok init_app)) \<noteq> None"
    by (simp add: open_env_ok)
  have b: "proc init_app = None"
    by (simp add: init_app_def)
  from a guards_are_noops [of "snd (open_black env_ok init_app)" env_ok]
  have c: "open_black env_ok (snd (open_black env_ok init_app))
      = (None, snd (open_black env_ok init_app))"
    by blast
  from b guards_are_noops [of init_app env_ok stop_never]
  have d: "close_black stop_never init_app = (None, init_app)"
    by blast
  from c d show ?thesis by simp
qed

text \<open>
  C7: when \<open>subprocess.Popen\<close> raises in \<open>open_black\<close>, called in a reachable state
  that holds no child, the message is put in the status line, no exception leaves the
  method, no child and no job handle is held afterwards, no poller is started and the
  buttons stay as they were.
\<close>

theorem launch_failure_keeps_idle:
  "reachable s \<Longrightarrow> proc s = None \<Longrightarrow> monitor_var env = Some i \<Longrightarrow> popen env = Inl msg \<Longrightarrow>
   fst (open_black env s) = None \<and>
   status_var (snd (open_black env s)) = ''Failed to start: '' @ msg \<and>
   proc (snd (open_black env s)) = None \<and>
   job (snd (open_black env s)) = None \<and>
   \<not> polling (snd (open_black env s)) \<and>
   timers (snd (open_black env s)) = 0 \<and>
   open_btn (snd (open_black env s)) = open_btn s \<and>
   close_btn (snd (open_black env s)) = close_btn s \<and>
   trace (snd (open_black env s)) = trace s @ [Popen (get_child_command env i)]"
  using reachable_idle [of s] by (simp add: open_black_def Let_def)

theorem launch_failure_keeps_idle_witness:
  "reachable init_app \<and> proc init_app = None \<and>
   open_black (env_ok\<lparr>popen := Inl ''[WinError 2] The system cannot find the file specified''\<rparr>)
     init_app
   = (None,
      init_app\<lparr>status_var :=
                 ''Failed to start: [WinError 2] The system cannot find the file specified'',
               trace := [Popen [''black_controller.exe'', ''--child'', ''1'']]\<rparr>)"
  using launch_failure_keeps_idle [OF reachable.Init, of
      "env_ok\<lparr>popen := Inl ''[WinError 2] The system cannot find the file specified''\<rparr>" 1
      "''[WinError 2] The system cannot find the file specified''"]
    reachable.Init
  by (simp add: open_black_def env_ok_def init_app_def get_child_command_def emit_def
      str_int_def str_nat.simps digit_char_def Let_def)

text \<open>
  C8 fails on the code when the child has already exited at the first \<open>_poll\<close>. A Job
  Object call that raises or returns 0 is absorbed: \<open>open_black\<close> keeps the child, holds
  no job handle, shows the running status, switches the buttons and sets \<open>_polling\<close>.
  While the child still runs at the first \<open>_poll\<close> no exception leaves the method and
  the next tick is registered. When \<open>self.proc.poll()\<close> already reports the exit there
  (line 304 calls \<open>_start_polling\<close>, line 335 \<open>_poll\<close>, line 340 the undefined
  \<open>_clear_proc\<close>), \<open>AttributeError\<close> leaves \<open>open_black\<close> and no tick is
  registered.
\<close>

theorem job_failure_first_poll:
  "reachable s \<Longrightarrow> proc s = None \<Longrightarrow> monitor_var env = Some i \<Longrightarrow> popen env = Inr pid \<Longrightarrow>
   job_attach_fails env \<Longrightarrow>
   proc (snd (open_black env s)) = Some pid \<and>
   job (snd (open_black env s)) = None \<and>
   polling (snd (open_black env s)) \<and>
   status_var (snd (open_black env s)) = running_status pid \<and>
   open_btn (snd (open_black env s)) = DISABLED \<and>
   close_btn (snd (open_black env s)) = NORMAL \<and>
   (first_poll env = None \<longrightarrow>
      fst (open_black env s) = None \<and> timers (snd (open_black env s)) = 1) \<and>
   (first_poll env \<noteq> None \<longrightarrow>
      fst (open_black env s) = Some (AttributeError ''_clear_proc'') \<and>
      timers (snd (open_black env s)) = 0)"
proof -
  assume r: "reachable s" and p: "proc s = None" and m: "monitor_var env = Some i"
    and c: "popen env = Inr pid" and f: "job_attach_fails env"
  from reachable_idle [OF r p] have idle: "job s = None" "\<not> polling s" "timers s = 0"
    by simp_all
  define s1 where "s1 = (emit (Popen (get_child_command env i)) s)\<lparr>proc := Some pid\<rparr>"
  define s2 where "s2 = (if have_job env then open_black_job env pid s1 else s1)"
  define s3 where "s3 = s2\<lparr>status_var := running_status pid, open_btn := DISABLED,
    close_btn := NORMAL\<rparr>"
  have o: "open_black env s = poll (first_poll env) (s3\<lparr>polling := True\<rparr>)"
    using p m c idle
    by (simp add: open_black_def start_polling_def s1_def s2_def s3_def Let_def)
  have j: "job s2 = None" "proc s2 = Some pid" "timers s2 = 0"
    using idle f by (simp_all add: s2_def s1_def open_black_job_fails)
  show ?thesis
  proof (cases "first_poll env")
    case None
    with o j show ?thesis by (simp add: poll_def s3_def Let_def)
  next
    case (Some rc)
    with o j show ?thesis by (simp add: poll_def clear_proc_def s3_def Let_def)
  qed
qed

theorem job_failure_first_poll_witness:
  "reachable init_app \<and>
   job_attach_fails (env_ok\<lparr>assign_process := Returns 0, first_poll := Some 0\<rparr>) \<and>
   fst (open_black (env_ok\<lparr>assign_process := Returns 0, first_poll := Some 0\<rparr>) init_app)
     = Some (AttributeError ''_clear_proc'') \<and>
   proc (snd (open_black (env_ok\<lparr>assign_process := Returns 0, first_poll := Some 0\<rparr>) init_app))
     = Some 4242 \<and>
   job (snd (open_black (env_ok\<lparr>assign_process := Returns 0, first_poll := Some 0\<rparr>) init_app))
     = None \<and>
   polling (snd (open_black (env_ok\<lparr>assign_process := Returns 0, first_poll := Some 0\<rparr>) init_app)) \<and>
   timers (snd (open_black (env_ok\<lparr>assign_process := Returns 0, first_poll := Some 0\<rparr>) init_app))
     = 0"
  using job_failure_first_poll [OF reachable.Init, of
      "env_ok\<lparr>assign_process := Returns 0, first_poll := Some 0\<rparr>" 1 4242]
    reachable.Init
  by (simp add: env_ok_def init_app_def job_attach_fails_def)



end
